theory Spec2Isabelle
  imports Complex_Main
begin

section \<open>Exceptions and numbers\<close>

text \<open>
  The exception classes the calculator raises or lets through. The first five are the
  classes of \<open>app/exceptions.py\<close>; the others are Python's own. Messages are not
  modelled: every statement below is about the class of an exception only.
\<close>

datatype error =
    CalculatorError | OperationError | ValidationError | ConfigurationError | HistoryError
  | IndexError | KeyError | ValueError | TypeError
  | ZeroDivisionError | OverflowError | OSError | RuntimeError

text \<open>
  A Python \<open>float\<close> that is finite is modelled by the real number it denotes, and the
  arithmetic on it is exact: rounding to 53 bits is left out. What is kept is every
  branch the operations take and every exception they raise. \<open>max_float\<close> is the
  largest finite double, \<open>sys.float_info.max\<close>.
\<close>

definition max_float :: real where
  "max_float = (2 ^ 53 - 1) * 2 ^ 971"

text \<open>\<open>a % b\<close> on floats, for \<open>b\<close> other than zero: the result has the sign of \<open>b\<close>.\<close>

definition py_mod :: "real \<Rightarrow> real \<Rightarrow> real" where
  "py_mod a b = a - b * of_int \<lfloor>a / b\<rfloor>"

text \<open>\<open>a // b\<close> on floats, for \<open>b\<close> other than zero.\<close>

definition py_floordiv :: "real \<Rightarrow> real \<Rightarrow> real" where
  "py_floordiv a b = of_int \<lfloor>a / b\<rfloor>"

text \<open>
  The value of \<open>a ** b\<close>: a float, or a number that is not a float (Python 3 gives a
  \<open>complex\<close> for a negative base under a fractional exponent).
\<close>

datatype pynum = Float real | Complex

text \<open>
  \<open>a ** b\<close> for finite floats, as \<open>float.__pow__\<close> computes it: anything to the power
  zero is one; zero to a negative power raises \<open>ZeroDivisionError\<close>; a negative base
  under an exponent that is not a whole number leaves the floats; a result beyond the
  largest double raises \<open>OverflowError\<close>.
\<close>

definition py_pow :: "real \<Rightarrow> real \<Rightarrow> error + pynum" where
  "py_pow a b =
     (if b = 0 then Inr (Float 1)
      else if a = 0 then (if b < 0 then Inl ZeroDivisionError else Inr (Float 0))
      else if a < 0 \<and> of_int \<lfloor>b\<rfloor> \<noteq> b then Inr Complex
      else
        let v = (if a < 0 then (if even \<lfloor>b\<rfloor> then \<bar>a\<bar> powr b else - (\<bar>a\<bar> powr b))
                 else a powr b)
        in if \<bar>v\<bar> > max_float then Inl OverflowError else Inr (Float v))"

text \<open>
  \<open>round(x, ndigits)\<close> for a float and \<open>ndigits \<ge> 0\<close>: to the nearest multiple of
  \<open>10 ^ (- ndigits)\<close>, a tie going to the even neighbour.
\<close>

definition round_half_even :: "real \<Rightarrow> int" where
  "round_half_even y =
     (let f = \<lfloor>y\<rfloor>; d = y - of_int f
      in if d < 1 / 2 then f
         else if 1 / 2 < d then f + 1
         else if even f then f else f + 1)"

definition py_round :: "real \<Rightarrow> nat \<Rightarrow> real" where
  "py_round x ndigits = of_int (round_half_even (x * 10 ^ ndigits)) / 10 ^ ndigits"


section \<open>Operations (\<open>app/operations.py\<close>)\<close>

text \<open>Each \<open>execute\<close> method takes two floats and returns a float or raises.\<close>

type_synonym operation_fn = "real \<Rightarrow> real \<Rightarrow> error + real"

definition AddOperation_execute :: operation_fn where
  "AddOperation_execute a b = Inr (a + b)"

definition SubtractOperation_execute :: operation_fn where
  "SubtractOperation_execute a b = Inr (a - b)"

definition MultiplyOperation_execute :: operation_fn where
  "MultiplyOperation_execute a b = Inr (a * b)"

definition DivideOperation_execute :: operation_fn where
  "DivideOperation_execute a b = (if b = 0 then Inl OperationError else Inr (a / b))"

text \<open>
  \<open>PowerOperation.execute\<close> turns \<open>ValueError\<close> and \<open>OverflowError\<close> into
  \<open>OperationError\<close>, and refuses a result that is not a float. Its \<open>except\<close> clause does
  not name \<open>ZeroDivisionError\<close>, which therefore passes through unchanged.
\<close>

definition PowerOperation_execute :: operation_fn where
  "PowerOperation_execute a b =
     (case py_pow a b of
        Inl e \<Rightarrow> (if e = ValueError \<or> e = OverflowError then Inl OperationError else Inl e)
      | Inr Complex \<Rightarrow> Inl OperationError
      | Inr (Float r) \<Rightarrow> Inr r)"

text \<open>
  \<open>RootOperation.execute\<close>: the two guards, then the power \<open>a ** (1 / b)\<close> (on
  \<open>abs(a)\<close>, negated, when \<open>a\<close> is negative), inside a \<open>try\<close> whose \<open>except\<close> clause
  turns \<open>ValueError\<close>, \<open>OverflowError\<close> and \<open>ZeroDivisionError\<close> into \<open>OperationError\<close>.
\<close>

definition RootOperation_execute :: operation_fn where
  "RootOperation_execute a b =
     (if b = 0 then Inl OperationError
      else if a < 0 \<and> py_mod b 2 = 0 then Inl OperationError
      else
        (case (if a < 0
               then (case py_pow \<bar>a\<bar> (1 / b) of
                       Inl e \<Rightarrow> Inl e
                     | Inr Complex \<Rightarrow> Inr Complex
                     | Inr (Float r) \<Rightarrow> Inr (Float (- r)))
               else py_pow a (1 / b)) of
           Inl e \<Rightarrow>
             (if e = ValueError \<or> e = OverflowError \<or> e = ZeroDivisionError
              then Inl OperationError else Inl e)
         | Inr Complex \<Rightarrow> Inl OperationError
         | Inr (Float r) \<Rightarrow> Inr r))"

definition ModulusOperation_execute :: operation_fn where
  "ModulusOperation_execute a b = (if b = 0 then Inl OperationError else Inr (py_mod a b))"

definition IntegerDivideOperation_execute :: operation_fn where
  "IntegerDivideOperation_execute a b =
     (if b = 0 then Inl OperationError else Inr (py_floordiv a b))"

definition PercentageOperation_execute :: operation_fn where
  "PercentageOperation_execute a b =
     (if b = 0 then Inl OperationError else Inr ((a / b) * 100))"

definition AbsoluteDifferenceOperation_execute :: operation_fn where
  "AbsoluteDifferenceOperation_execute a b = Inr \<bar>a - b\<bar>"

text \<open>
  \<open>OperationFactory._operations\<close> is a dictionary of the class, which
  \<open>register_operation\<close> may extend or override at any time: the engine below takes the
  registry it finds as an argument. \<open>builtin_operations\<close> is its initial value.
\<close>

type_synonym registry = "string \<rightharpoonup> operation_fn"

definition builtin_operations :: registry where
  "builtin_operations =
     [''add'' \<mapsto> AddOperation_execute,
      ''subtract'' \<mapsto> SubtractOperation_execute,
      ''multiply'' \<mapsto> MultiplyOperation_execute,
      ''divide'' \<mapsto> DivideOperation_execute,
      ''power'' \<mapsto> PowerOperation_execute,
      ''root'' \<mapsto> RootOperation_execute,
      ''modulus'' \<mapsto> ModulusOperation_execute,
      ''int_divide'' \<mapsto> IntegerDivideOperation_execute,
      ''percent'' \<mapsto> PercentageOperation_execute,
      ''abs_diff'' \<mapsto> AbsoluteDifferenceOperation_execute]"

definition create_operation :: "registry \<Rightarrow> string \<Rightarrow> error + operation_fn" where
  "create_operation ops operation_name =
     (case ops operation_name of
        None \<Rightarrow> Inl OperationError
      | Some operation_class \<Rightarrow> Inr operation_class)"

definition register_operation :: "registry \<Rightarrow> string \<Rightarrow> operation_fn \<Rightarrow> registry" where
  "register_operation ops name operation_class = ops(name \<mapsto> operation_class)"


section \<open>Input validation (\<open>app/input_validators.py\<close>)\<close>

text \<open>
  A raw operand, by what \<open>float(value)\<close> makes of it: a finite float, \<open>nan\<close>, an
  infinity, an integer too large for a float (\<open>float\<close> raises \<open>OverflowError\<close>), or a
  value \<open>float\<close> refuses with \<open>ValueError\<close> or \<open>TypeError\<close>.
\<close>

datatype raw = RawFloat real | RawNaN | RawInf | RawOverflow | RawInvalid

text \<open>
  \<open>InputValidator.validate_number(value, max_value)\<close> as the engine calls it, with the
  configured bound (a finite float, so the test \<open>max_value is not None\<close> holds). The
  \<open>except\<close> clause names \<open>ValueError\<close> and \<open>TypeError\<close> only: \<open>OverflowError\<close> passes
  through.
\<close>

definition validate_number :: "raw \<Rightarrow> real \<Rightarrow> error + real" where
  "validate_number v max_value =
     (case v of
        RawInvalid \<Rightarrow> Inl ValidationError
      | RawOverflow \<Rightarrow> Inl OverflowError
      | RawNaN \<Rightarrow> Inl ValidationError
      | RawInf \<Rightarrow> Inl ValidationError
      | RawFloat num \<Rightarrow> (if \<bar>num\<bar> > max_value then Inl ValidationError else Inr num))"


section \<open>The world outside the calculator\<close>

text \<open>
  A cell of a CSV table, by what the two converters of \<open>Calculation.from_dict\<close> make of
  it: text \<open>float\<close> reads as a finite number, text \<open>datetime.fromisoformat\<close> reads as an
  instant, or other text. A row is the dictionary \<open>row.to_dict()\<close> gives: a column the
  table lacks is a key the dictionary lacks (\<open>None\<close>).
\<close>

datatype cell = FloatCell real | IsoCell nat | TextCell string

record row =
  row_operation :: "string option"
  row_operand1 :: "cell option"
  row_operand2 :: "cell option"
  row_result :: "cell option"
  row_timestamp :: "cell option"

text \<open>
  What \<open>pandas.read_csv\<close> does with a file that exists: it raises \<open>EmptyDataError\<close>
  (a file of no bytes), it raises another exception, or it returns a table.
\<close>

datatype csv_file = EmptyFile | Unparsable | Table "row list"

text \<open>
  A line of the log, by the call that wrote it.
\<close>

datatype log_entry =
    LogInitialized | LogCalculation string real real real
  | LogUndo | LogRedo | LogCleared | LogSaved string | LogLoaded string

text \<open>
  The world: the clock \<open>datetime.now()\<close> reads, the number of objects constructed so
  far (the next object's identity), the files, the paths a write fails on, the log,
  and the trace of observer calls (the position of the observer in the list of
  observers, and the calculation it was handed).
\<close>

record world =
  clock :: nat
  next_ident :: nat
  files :: "string \<rightharpoonup> csv_file"
  locked :: "string list"
  log :: "log_entry list"
  calls :: "(nat \<times> nat) list"


section \<open>Calculations (\<open>app/calculation.py\<close>)\<close>

text \<open>
  A \<open>Calculation\<close> object: its identity and its five attributes. The class defines
  neither \<open>__eq__\<close> nor \<open>__hash__\<close>.
\<close>

record calculation =
  ident :: nat
  operation :: string
  operand1 :: real
  operand2 :: real
  result :: real
  timestamp :: nat

text \<open>\<open>Calculation(operation, operand1, operand2, result)\<close>: a new object, stamped now.\<close>

definition Calculation_init ::
  "string \<Rightarrow> real \<Rightarrow> real \<Rightarrow> real \<Rightarrow> world \<Rightarrow> calculation \<times> world" where
  "Calculation_init opn a b r w =
     (\<lparr>ident = next_ident w, operation = opn, operand1 = a, operand2 = b, result = r,
       timestamp = clock w\<rparr>,
      w\<lparr>next_ident := Suc (next_ident w)\<rparr>)"

text \<open>
  \<open>c1 == c2\<close> on two \<open>Calculation\<close> objects: the class inherits \<open>object.__eq__\<close>, which
  compares identities.
\<close>

definition Calculation_eq :: "calculation \<Rightarrow> calculation \<Rightarrow> bool" where
  "Calculation_eq c1 c2 = (ident c1 = ident c2)"

definition to_dict :: "calculation \<Rightarrow> row" where
  "to_dict c =
     \<lparr>row_operation = Some (operation c),
      row_operand1 = Some (FloatCell (operand1 c)),
      row_operand2 = Some (FloatCell (operand2 c)),
      row_result = Some (FloatCell (result c)),
      row_timestamp = Some (IsoCell (timestamp c))\<rparr>"

fun py_float :: "cell \<Rightarrow> error + real" where
  "py_float (FloatCell x) = Inr x"
| "py_float (IsoCell t) = Inl ValueError"
| "py_float (TextCell s) = Inl ValueError"

fun fromisoformat :: "cell \<Rightarrow> error + nat" where
  "fromisoformat (IsoCell t) = Inr t"
| "fromisoformat (FloatCell x) = Inl TypeError"
| "fromisoformat (TextCell s) = Inl ValueError"

text \<open>\<open>data[key]\<close> followed by \<open>float\<close>: a missing key raises \<open>KeyError\<close>.\<close>

definition float_item :: "cell option \<Rightarrow> error + real" where
  "float_item x = (case x of None \<Rightarrow> Inl KeyError | Some c \<Rightarrow> py_float c)"

text \<open>
  \<open>Calculation.from_dict\<close>: the four arguments are read in order, the object is
  constructed, and the timestamp is replaced when the dictionary has one.
\<close>

definition from_dict :: "row \<Rightarrow> world \<Rightarrow> (error + calculation) \<times> world" where
  "from_dict data w =
     (case row_operation data of
        None \<Rightarrow> (Inl KeyError, w)
      | Some opn \<Rightarrow>
          (case float_item (row_operand1 data) of
             Inl e \<Rightarrow> (Inl e, w)
           | Inr a \<Rightarrow>
               (case float_item (row_operand2 data) of
                  Inl e \<Rightarrow> (Inl e, w)
                | Inr b \<Rightarrow>
                    (case float_item (row_result data) of
                       Inl e \<Rightarrow> (Inl e, w)
                     | Inr r \<Rightarrow>
                         (let (calc, w') = Calculation_init opn a b r w
                          in case row_timestamp data of
                               None \<Rightarrow> (Inr calc, w')
                             | Some t \<Rightarrow>
                                 (case fromisoformat t of
                                    Inl e \<Rightarrow> (Inl e, w')
                                  | Inr ts \<Rightarrow> (Inr (calc\<lparr>timestamp := ts\<rparr>), w')))))))"


section \<open>The bounded history (\<open>app/history.py\<close>)\<close>

record history_store =
  entries :: "calculation list"
  max_size :: int

definition CalculationHistory :: "int \<Rightarrow> history_store" where
  "CalculationHistory k = \<lparr>entries = [], max_size = k\<rparr>"

text \<open>
  The slice \<open>xs[-k:]\<close>: the last \<open>k\<close> elements when \<open>k\<close> is positive (all of them when
  there are fewer); for \<open>k \<le> 0\<close> the start index \<open>-k\<close> counts from the front, so
  \<open>xs[-0:]\<close> is the whole list.
\<close>

definition slice_last :: "'a list \<Rightarrow> int \<Rightarrow> 'a list" where
  "slice_last xs k =
     (if 0 < k then drop (length xs - nat k) xs else drop (nat (- k)) xs)"

text \<open>The trimming step that three methods share, written out in each.\<close>

definition trim :: "int \<Rightarrow> 'a list \<Rightarrow> 'a list" where
  "trim k xs = (if k < int (length xs) then slice_last xs k else xs)"

definition add_calculation :: "history_store \<Rightarrow> calculation \<Rightarrow> history_store" where
  "add_calculation h c = h\<lparr>entries := trim (max_size h) (entries h @ [c])\<rparr>"

definition get_history :: "history_store \<Rightarrow> calculation list" where
  "get_history h = entries h"

definition clear_history :: "history_store \<Rightarrow> history_store" where
  "clear_history h = h\<lparr>entries := []\<rparr>"

definition get_last_calculation :: "history_store \<Rightarrow> error + calculation" where
  "get_last_calculation h =
     (if entries h = [] then Inl HistoryError else Inr (last (entries h)))"

definition remove_last_calculation :: "history_store \<Rightarrow> error option \<times> history_store" where
  "remove_last_calculation h =
     (if entries h = [] then (Some HistoryError, h)
      else (None, h\<lparr>entries := butlast (entries h)\<rparr>))"

definition set_history :: "history_store \<Rightarrow> calculation list \<Rightarrow> history_store" where
  "set_history h xs = h\<lparr>entries := trim (max_size h) xs\<rparr>"

definition history_len :: "history_store \<Rightarrow> nat" where
  "history_len h = length (entries h)"

text \<open>
  \<open>save_to_csv\<close>: the table of the entries is written to the path; any failure is
  raised as \<open>HistoryError\<close>. The encoding is handed on to pandas and plays no part here.
\<close>

definition save_to_csv ::
  "history_store \<Rightarrow> string \<Rightarrow> string \<Rightarrow> world \<Rightarrow> error option \<times> world" where
  "save_to_csv h file_path encoding w =
     (if file_path \<in> set (locked w) then (Some HistoryError, w)
      else (None, w\<lparr>files := (files w)(file_path \<mapsto> Table (map to_dict (entries h)))\<rparr>))"

text \<open>
  The loop of \<open>load_from_csv\<close>: each row is converted and appended to the list the
  store holds; the first row that raises ends the loop with the list as it is then.
\<close>

fun load_rows ::
  "row list \<Rightarrow> calculation list \<Rightarrow> world \<Rightarrow> error option \<times> calculation list \<times> world" where
  "load_rows [] acc w = (None, acc, w)"
| "load_rows (r # rs) acc w =
     (case from_dict r w of
        (Inl e, w') \<Rightarrow> (Some e, acc, w')
      | (Inr calc, w') \<Rightarrow> load_rows rs (acc @ [calc]) w')"

text \<open>
  \<open>load_from_csv\<close>. A missing file and a failing \<open>read_csv\<close> raise before the store is
  touched. \<open>EmptyDataError\<close> has a handler of its own, which clears the store. With a
  table in hand the store is cleared and filled row by row, and trimmed after the
  loop; an exception inside the loop reaches \<open>except Exception\<close>, which raises
  \<open>HistoryError\<close> and restores nothing.
\<close>

definition load_from_csv ::
  "history_store \<Rightarrow> string \<Rightarrow> string \<Rightarrow> world \<Rightarrow> error option \<times> history_store \<times> world" where
  "load_from_csv h file_path encoding w =
     (case files w file_path of
        None \<Rightarrow> (Some HistoryError, h, w)
      | Some EmptyFile \<Rightarrow> (None, h\<lparr>entries := []\<rparr>, w)
      | Some Unparsable \<Rightarrow> (Some HistoryError, h, w)
      | Some (Table rows) \<Rightarrow>
          (case load_rows rows [] w of
             (Some e, acc, w') \<Rightarrow> (Some HistoryError, h\<lparr>entries := acc\<rparr>, w')
           | (None, acc, w') \<Rightarrow> (None, h\<lparr>entries := trim (max_size h) acc\<rparr>, w')))"


section \<open>Mementos and their caretaker (\<open>app/calculator_memento.py\<close>)\<close>

text \<open>A memento holds a copy of the list it is given, and hands out copies of it.\<close>

datatype memento = CalculatorMemento "calculation list"

fun memento_get_history :: "memento \<Rightarrow> calculation list" where
  "memento_get_history (CalculatorMemento xs) = xs"

text \<open>Both stacks are Python lists: the top is the last element.\<close>

record caretaker =
  undo_stack :: "memento list"
  redo_stack :: "memento list"

definition CalculatorCaretaker :: caretaker where
  "CalculatorCaretaker = \<lparr>undo_stack = [], redo_stack = []\<rparr>"

definition save_state :: "caretaker \<Rightarrow> memento \<Rightarrow> caretaker" where
  "save_state ct m = \<lparr>undo_stack = undo_stack ct @ [m], redo_stack = []\<rparr>"

definition Caretaker_undo :: "caretaker \<Rightarrow> (error + memento) \<times> caretaker" where
  "Caretaker_undo ct =
     (if undo_stack ct = [] then (Inl IndexError, ct)
      else
        let m = last (undo_stack ct);
            ct' = \<lparr>undo_stack = butlast (undo_stack ct), redo_stack = redo_stack ct @ [m]\<rparr>
        in if undo_stack ct' \<noteq> [] then (Inr (last (undo_stack ct')), ct')
           else (Inr (CalculatorMemento []), ct'))"

definition Caretaker_redo :: "caretaker \<Rightarrow> (error + memento) \<times> caretaker" where
  "Caretaker_redo ct =
     (if redo_stack ct = [] then (Inl IndexError, ct)
      else
        let m = last (redo_stack ct)
        in (Inr m, \<lparr>undo_stack = undo_stack ct @ [m], redo_stack = butlast (redo_stack ct)\<rparr>))"

definition can_undo :: "caretaker \<Rightarrow> bool" where
  "can_undo ct = (0 < length (undo_stack ct))"

definition can_redo :: "caretaker \<Rightarrow> bool" where
  "can_redo ct = (0 < length (redo_stack ct))"

definition Caretaker_clear :: "caretaker \<Rightarrow> caretaker" where
  "Caretaker_clear ct = \<lparr>undo_stack = [], redo_stack = []\<rparr>"


section \<open>Configuration (\<open>app/calculator_config.py\<close>)\<close>

record calculator_config =
  log_dir :: string
  history_dir :: string
  max_history_size :: int
  auto_save :: bool
  precision :: nat
  max_input_value :: real
  default_encoding :: string

text \<open>The ranges \<open>_validate_config\<close> enforces; the precision is a natural number here.\<close>

definition valid_config :: "calculator_config \<Rightarrow> bool" where
  "valid_config cfg = (1 \<le> max_history_size cfg \<and> 0 < max_input_value cfg)"

definition DEFAULTS :: calculator_config where
  "DEFAULTS =
     \<lparr>log_dir = ''logs'', history_dir = ''history'', max_history_size = 100,
      auto_save = True, precision = 2, max_input_value = 10 ^ 10,
      default_encoding = ''utf-8''\<rparr>"

text \<open>\<open>os.path.join(directory, 'calculator_history.csv')\<close>.\<close>

definition history_file :: "calculator_config \<Rightarrow> string" where
  "history_file cfg =
     (let d = history_dir cfg
      in if d = [] then ''calculator_history.csv''
         else if last d = CHR ''/'' then d @ ''calculator_history.csv''
         else d @ ''/calculator_history.csv'')"


section \<open>The calculator and its observers (\<open>app/calculator.py\<close>)\<close>

text \<open>
  An observer is one of the two classes of the module, or any other implementation of
  \<open>CalculatorObserver\<close>, given by what its handler does with a calculation: return
  (\<open>None\<close>) or raise. An \<open>AutoSaveObserver\<close> holds the path and the encoding; the history
  it holds is the calculator's own \<open>CalculationHistory\<close> object.
\<close>

datatype observer =
    LoggingObserver
  | AutoSaveObserver string string
  | CustomObserver "calculation \<Rightarrow> error option"

record calculator =
  config :: calculator_config
  history :: history_store
  caretaker :: caretaker
  observers :: "observer list"

type_synonym state = "calculator \<times> world"

text \<open>
  \<open>on_calculation_performed\<close>, for each kind of observer. The auto-save handler
  catches every exception of \<open>save_to_csv\<close> and prints a message, so it never raises.
\<close>

fun on_calculation_performed ::
  "observer \<Rightarrow> calculation \<Rightarrow> calculator \<Rightarrow> world \<Rightarrow> error option \<times> world" where
  "on_calculation_performed LoggingObserver c calc w =
     (None, w\<lparr>log := log w @ [LogCalculation (operation c) (operand1 c) (operand2 c) (result c)]\<rparr>)"
| "on_calculation_performed (AutoSaveObserver file_path encoding) c calc w =
     (case save_to_csv (history calc) file_path encoding w of
        (Some e, w') \<Rightarrow> (None, w')
      | (None, w') \<Rightarrow> (None, w'))"
| "on_calculation_performed (CustomObserver handler) c calc w = (handler c, w)"

text \<open>
  \<open>notify_observers\<close>: the \<open>for\<close> loop over the observers, in the order of the list.
  Each call is recorded in the trace before the handler runs. The loop has no
  \<open>try\<close>: a handler that raises ends it, and the exception leaves the method.
\<close>

fun notify_from ::
  "nat \<Rightarrow> observer list \<Rightarrow> calculation \<Rightarrow> calculator \<Rightarrow> world \<Rightarrow> error option \<times> world" where
  "notify_from i [] c calc w = (None, w)"
| "notify_from i (ob # obs) c calc w =
     (case on_calculation_performed ob c calc (w\<lparr>calls := calls w @ [(i, ident c)]\<rparr>) of
        (Some e, w') \<Rightarrow> (Some e, w')
      | (None, w') \<Rightarrow> notify_from (Suc i) obs c calc w')"

definition notify_observers :: "calculation \<Rightarrow> state \<Rightarrow> error option \<times> world" where
  "notify_observers c s = notify_from 0 (observers (fst s)) c (fst s) (snd s)"

definition register_observer :: "observer \<Rightarrow> calculator \<Rightarrow> calculator" where
  "register_observer ob calc = calc\<lparr>observers := observers calc @ [ob]\<rparr>"

text \<open>
  \<open>Calculator.__init__\<close>: the history, the caretaker with a memento of the empty
  history saved in it, the logging observer, and the auto-save observer when the
  configuration asks for one.
\<close>

definition Calculator_init :: "calculator_config \<Rightarrow> world \<Rightarrow> state" where
  "Calculator_init cfg w =
     (let h = CalculationHistory (max_history_size cfg);
          ct = save_state CalculatorCaretaker (CalculatorMemento (get_history h));
          calc0 = \<lparr>config = cfg, history = h, caretaker = ct, observers = []\<rparr>;
          calc1 = register_observer LoggingObserver calc0;
          calc2 = (if auto_save cfg
                   then register_observer
                          (AutoSaveObserver (history_file cfg) (default_encoding cfg)) calc1
                   else calc1)
      in (calc2, w\<lparr>log := log w @ [LogInitialized]\<rparr>))"

text \<open>
  \<open>perform_calculation\<close>: validate both operands, look the operation up and run it,
  round; then construct the record, append it, save a memento of the new history,
  notify. The registry is the one \<open>OperationFactory\<close> holds at the time of the call.
\<close>

definition perform_calculation ::
  "registry \<Rightarrow> string \<Rightarrow> raw \<Rightarrow> raw \<Rightarrow> state \<Rightarrow> (error + real) \<times> state" where
  "perform_calculation ops opn raw1 raw2 s =
     (let calc = fst s; w = snd s
      in case validate_number raw1 (max_input_value (config calc)) of
           Inl e \<Rightarrow> (Inl e, s)
         | Inr a \<Rightarrow>
       (case validate_number raw2 (max_input_value (config calc)) of
           Inl e \<Rightarrow> (Inl e, s)
         | Inr b \<Rightarrow>
       (case create_operation ops opn of
           Inl e \<Rightarrow> (Inl e, s)
         | Inr op \<Rightarrow>
       (case op a b of
           Inl e \<Rightarrow> (Inl e, s)
         | Inr r0 \<Rightarrow>
             (let r = py_round r0 (precision (config calc));
                  (c, w1) = Calculation_init opn a b r w;
                  h = add_calculation (history calc) c;
                  ct = save_state (caretaker calc) (CalculatorMemento (get_history h));
                  calc' = calc\<lparr>history := h, caretaker := ct\<rparr>
              in case notify_observers c (calc', w1) of
                   (Some e, w2) \<Rightarrow> (Inl e, (calc', w2))
                 | (None, w2) \<Rightarrow> (Inr r, (calc', w2)))))))"

text \<open>
  \<open>undo\<close> and \<open>redo\<close>: \<open>HistoryError\<close> when the caretaker has nothing, and when the
  caretaker raises \<open>IndexError\<close>; otherwise the history is replaced by the memento's.
\<close>

definition Calculator_undo :: "state \<Rightarrow> error option \<times> state" where
  "Calculator_undo s =
     (let calc = fst s; w = snd s
      in if \<not> can_undo (caretaker calc) then (Some HistoryError, s)
         else
           (case Caretaker_undo (caretaker calc) of
              (Inl e, ct) \<Rightarrow>
                (if e = IndexError then (Some HistoryError, (calc\<lparr>caretaker := ct\<rparr>, w))
                 else (Some e, (calc\<lparr>caretaker := ct\<rparr>, w)))
            | (Inr m, ct) \<Rightarrow>
                (None,
                 (calc\<lparr>history := set_history (history calc) (memento_get_history m),
                       caretaker := ct\<rparr>,
                  w\<lparr>log := log w @ [LogUndo]\<rparr>))))"

definition Calculator_redo :: "state \<Rightarrow> error option \<times> state" where
  "Calculator_redo s =
     (let calc = fst s; w = snd s
      in if \<not> can_redo (caretaker calc) then (Some HistoryError, s)
         else
           (case Caretaker_redo (caretaker calc) of
              (Inl e, ct) \<Rightarrow>
                (if e = IndexError then (Some HistoryError, (calc\<lparr>caretaker := ct\<rparr>, w))
                 else (Some e, (calc\<lparr>caretaker := ct\<rparr>, w)))
            | (Inr m, ct) \<Rightarrow>
                (None,
                 (calc\<lparr>history := set_history (history calc) (memento_get_history m),
                       caretaker := ct\<rparr>,
                  w\<lparr>log := log w @ [LogRedo]\<rparr>))))"

definition Calculator_clear_history :: "state \<Rightarrow> state" where
  "Calculator_clear_history s =
     (let calc = fst s; w = snd s
      in (calc\<lparr>history := clear_history (history calc),
               caretaker := Caretaker_clear (caretaker calc)\<rparr>,
          w\<lparr>log := log w @ [LogCleared]\<rparr>))"

definition default_path :: "calculator \<Rightarrow> string option \<Rightarrow> string" where
  "default_path calc file_path =
     (case file_path of None \<Rightarrow> history_file (config calc) | Some p \<Rightarrow> p)"

definition save_history :: "string option \<Rightarrow> state \<Rightarrow> error option \<times> state" where
  "save_history file_path s =
     (let calc = fst s; w = snd s; p = default_path calc file_path
      in case save_to_csv (history calc) p (default_encoding (config calc)) w of
           (Some e, w') \<Rightarrow> (Some e, (calc, w'))
         | (None, w') \<Rightarrow> (None, (calc, w'\<lparr>log := log w' @ [LogSaved p]\<rparr>)))"

definition load_history :: "string option \<Rightarrow> state \<Rightarrow> error option \<times> state" where
  "load_history file_path s =
     (let calc = fst s; w = snd s; p = default_path calc file_path
      in case load_from_csv (history calc) p (default_encoding (config calc)) w of
           (Some e, h, w') \<Rightarrow> (Some e, (calc\<lparr>history := h\<rparr>, w'))
         | (None, h, w') \<Rightarrow>
             (None, (calc\<lparr>history := h\<rparr>, w'\<lparr>log := log w' @ [LogLoaded p]\<rparr>)))"


section \<open>Sequences of calls\<close>

text \<open>A world in which nothing has happened yet: no file, no object, an empty log.\<close>

definition fresh_world :: world where
  "fresh_world =
     \<lparr>clock = 0, next_ident = 0, files = Map.empty, locked = [], log = [], calls = []\<rparr>"

text \<open>
  A caller that performs one calculation after the other, each at its own time, whether
  the one before succeeded or raised.
\<close>

fun run_performs :: "registry \<Rightarrow> (nat \<times> string \<times> raw \<times> raw) list \<Rightarrow> state \<Rightarrow> state" where
  "run_performs ops [] s = s"
| "run_performs ops ((t, opn, raw1, raw2) # rest) s =
     run_performs ops rest
       (snd (perform_calculation ops opn raw1 raw2 (fst s, (snd s)\<lparr>clock := t\<rparr>)))"

text \<open>
  A caller that repeats \<open>undo\<close> until it raises: the result is the exception and the
  state it leaves. The length of the undo stack decreases with every \<open>undo\<close> that
  succeeds, so the loop ends.
\<close>

function undo_to_exhaustion :: "state \<Rightarrow> error \<times> state" where
  "undo_to_exhaustion s =
     (case Calculator_undo s of
        (Some e, s') \<Rightarrow> (e, s')
      | (None, s') \<Rightarrow> undo_to_exhaustion s')"
  by pat_completeness auto
termination
proof (relation "measure (\<lambda>s. length (undo_stack (caretaker (fst s))))")
  show "wf (measure (\<lambda>s. length (undo_stack (caretaker (fst s)))))" by simp
next
  fix s :: state and x1 :: "error option" and s' :: state
  assume "(x1, s') = Calculator_undo s" and "x1 = None"
  then have "Calculator_undo s = (None, s')" by simp
  then have "length (undo_stack (caretaker (fst s'))) < length (undo_stack (caretaker (fst s)))"
    by (auto simp: Calculator_undo_def Caretaker_undo_def can_undo_def Let_def
        split: if_splits)
  then show "(s', s) \<in> measure (\<lambda>s. length (undo_stack (caretaker (fst s))))" by simp
qed

text \<open>A caller that calls \<open>redo\<close> a given number of times.\<close>

fun repeat_redo :: "nat \<Rightarrow> state \<Rightarrow> state" where
  "repeat_redo 0 s = s"
| "repeat_redo (Suc n) s = repeat_redo n (snd (Calculator_redo s))"

text \<open>
  The state the caretaker presents as current: the memento on top of the undo stack,
  or the empty history when the stack is empty.
\<close>

definition current_snapshot :: "caretaker \<Rightarrow> calculation list" where
  "current_snapshot ct =
     (if undo_stack ct = [] then [] else memento_get_history (last (undo_stack ct)))"

definition fits :: "int \<Rightarrow> memento \<Rightarrow> bool" where
  "fits k m = (int (length (memento_get_history m)) \<le> k)"

text \<open>
  A calculator whose history and caretaker agree: the capacity is at least one, the
  history is the current snapshot, and every memento fits the capacity.
\<close>

definition consistent :: "calculator \<Rightarrow> bool" where
  "consistent calc =
     (1 \<le> max_size (history calc)
      \<and> entries (history calc) = current_snapshot (caretaker calc)
      \<and> list_all (fits (max_size (history calc))) (undo_stack (caretaker calc))
      \<and> list_all (fits (max_size (history calc))) (redo_stack (caretaker calc)))"



text \<open>
  Two rows of a history file: one as \<open>save_to_csv\<close> writes it, and one whose first
  operand is not a number.
\<close>

definition good_row :: row where
  "good_row =
     \<lparr>row_operation = Some ''add'', row_operand1 = Some (FloatCell 1),
      row_operand2 = Some (FloatCell 2), row_result = Some (FloatCell 3),
      row_timestamp = Some (IsoCell 7)\<rparr>"

definition bad_row :: row where
  "bad_row = good_row\<lparr>row_operand1 := Some (TextCell ''abc'')\<rparr>"

text \<open>A world with one file.\<close>

definition world_with :: "string \<Rightarrow> csv_file \<Rightarrow> world" where
  "world_with file_path f = fresh_world\<lparr>files := [file_path \<mapsto> f]\<rparr>"


text \<open>
  What a call of \<open>perform_calculation\<close> that gets as far as the history does to the
  calculator: one entry appended, one memento of the new history saved.
\<close>

definition performed :: "calculator \<Rightarrow> calculation \<Rightarrow> calculator" where
  "performed calc c =
     calc\<lparr>history := add_calculation (history calc) c,
          caretaker := save_state (caretaker calc)
            (CalculatorMemento (get_history (add_calculation (history calc) c)))\<rparr>"

text \<open>
  A calculator on which nothing is undone, and whose oldest memento is the empty one
  the constructor saved.
\<close>

definition undo_floor :: "calculator \<Rightarrow> bool" where
  "undo_floor calc =
     (redo_stack (caretaker calc) = [] \<and> undo_stack (caretaker calc) \<noteq> []
      \<and> hd (undo_stack (caretaker calc)) = CalculatorMemento [])"


section \<open>Evaluation\<close>

text \<open>The defining equations that compute a call on concrete arguments.\<close>

lemmas engine_defs =
  Calculator_init_def Calculator_undo_def Calculator_redo_def Calculator_clear_history_def
  Caretaker_undo_def Caretaker_redo_def Caretaker_clear_def can_undo_def can_redo_def
  save_state_def CalculatorCaretaker_def CalculationHistory_def get_history_def
  clear_history_def register_observer_def set_history_def add_calculation_def
  trim_def slice_last_def perform_calculation_def validate_number_def
  create_operation_def builtin_operations_def py_round_def round_half_even_def
  Calculation_init_def notify_observers_def save_to_csv_def to_dict_def
  load_history_def load_from_csv_def from_dict_def float_item_def default_path_def
  DEFAULTS_def history_file_def fresh_world_def world_with_def good_row_def bad_row_def
  Let_def

lemma trim_Nil: "trim k [] = []"
  by (simp add: trim_def slice_last_def)


section \<open>Undo on a fresh calculator\<close>

text \<open>
  C10. On a calculator that has just been constructed, whatever its configuration,
  \<open>can_undo()\<close> is true; the first \<open>undo()\<close> succeeds and leaves the history empty;
  the second \<open>undo()\<close> raises \<open>HistoryError\<close> and changes nothing.
\<close>

theorem fresh_calculator_undo:
  "can_undo (caretaker (fst (Calculator_init cfg w)))
   \<and> fst (Calculator_undo (Calculator_init cfg w)) = None
   \<and> entries (history (fst (snd (Calculator_undo (Calculator_init cfg w))))) = []
   \<and> fst (Calculator_undo (snd (Calculator_undo (Calculator_init cfg w)))) = Some HistoryError
   \<and> snd (Calculator_undo (snd (Calculator_undo (Calculator_init cfg w))))
       = snd (Calculator_undo (Calculator_init cfg w))"
  by (simp add: Calculator_init_def Calculator_undo_def Caretaker_undo_def can_undo_def
      save_state_def CalculatorCaretaker_def CalculationHistory_def get_history_def
      register_observer_def set_history_def trim_Nil Let_def)


section \<open>A new calculation clears the redo stack\<close>

text \<open>
  C4. In every state, a \<open>perform_calculation\<close> that returns normally leaves the redo
  stack empty: \<open>can_redo()\<close> is false and \<open>redo()\<close> raises \<open>HistoryError\<close>, changing
  nothing. The states in which \<open>undo()\<close> has been called are among them.
\<close>

theorem perform_clears_redo:
  assumes "perform_calculation ops opn raw1 raw2 s = (Inr r, s')"
  shows "redo_stack (caretaker (fst s')) = [] \<and> \<not> can_redo (caretaker (fst s'))
         \<and> Calculator_redo s' = (Some HistoryError, s')"
proof -
  from assms have "redo_stack (caretaker (fst s')) = []"
    by (auto simp: perform_calculation_def Let_def save_state_def
        split: sum.splits prod.splits option.splits)
  then show ?thesis by (simp add: can_redo_def Calculator_redo_def)
qed

text \<open>
  The theorem at work: a calculation, an \<open>undo()\<close> (after which \<open>can_redo()\<close> is true),
  and a second calculation.
\<close>

theorem perform_clears_redo_witness:
  "can_redo (caretaker (fst (snd (Calculator_undo
       (snd (perform_calculation builtin_operations ''add'' (RawFloat 5) (RawFloat 3)
               (Calculator_init DEFAULTS fresh_world)))))))
   \<and> \<not> can_redo (caretaker (fst (snd
       (perform_calculation builtin_operations ''multiply'' (RawFloat 4) (RawFloat 2)
          (snd (Calculator_undo
             (snd (perform_calculation builtin_operations ''add'' (RawFloat 5) (RawFloat 3)
                     (Calculator_init DEFAULTS fresh_world)))))))))"
proof -
  let ?s = "snd (Calculator_undo
             (snd (perform_calculation builtin_operations ''add'' (RawFloat 5) (RawFloat 3)
                     (Calculator_init DEFAULTS fresh_world))))"
  let ?p = "perform_calculation builtin_operations ''multiply'' (RawFloat 4) (RawFloat 2) ?s"
  have r: "can_redo (caretaker (fst ?s))"
    by (simp add: engine_defs AddOperation_execute_def)
  have "fst ?p = Inr 8"
    by (simp add: engine_defs AddOperation_execute_def MultiplyOperation_execute_def)
  then have "?p = (Inr 8, snd ?p)"
    by (simp add: prod_eq_iff)
  from perform_clears_redo [OF this] r show ?thesis by simp
qed


section \<open>A calculation that fails changes nothing\<close>





section \<open>The root operation\<close>









section \<open>Equality of calculations\<close>

text \<open>
  C8, as the code has it. \<open>Calculation\<close> defines no \<open>__eq__\<close>, so \<open>==\<close> is the identity
  test of \<open>object\<close>: two calculations constructed one after the other with the same
  operation, operands and result, at the same reading of the clock, agree on all
  five attributes and are not equal.
\<close>

theorem calculation_equality_counterexample:
  "\<not> (\<forall>c1 c2. operation c1 = operation c2 \<and> operand1 c1 = operand1 c2
          \<and> operand2 c1 = operand2 c2 \<and> result c1 = result c2
          \<and> timestamp c1 = timestamp c2 \<longrightarrow> Calculation_eq c1 c2)"
proof
  assume a: "\<forall>c1 c2. operation c1 = operation c2 \<and> operand1 c1 = operand1 c2
          \<and> operand2 c1 = operand2 c2 \<and> result c1 = result c2
          \<and> timestamp c1 = timestamp c2 \<longrightarrow> Calculation_eq c1 c2"
  let ?c1 = "fst (Calculation_init ''add'' 5 3 8 fresh_world)"
  let ?c2 = "fst (Calculation_init ''add'' 5 3 8 (snd (Calculation_init ''add'' 5 3 8 fresh_world)))"
  have "Calculation_eq ?c1 ?c2"
    by (rule a [rule_format]) (simp add: Calculation_init_def)
  then show False by (simp add: Calculation_eq_def Calculation_init_def)
qed

text \<open>
  C8, amended. Equality of \<open>Calculation\<close> objects is identity: a calculation is equal
  to itself, and two calculations constructed by two calls of the constructor are
  unequal, in either order, whatever their attributes.
\<close>

theorem calculation_equality:
  "Calculation_eq c c
   \<and> \<not> Calculation_eq (fst (Calculation_init opn a b r w))
        (fst (Calculation_init opn' a' b' r' (snd (Calculation_init opn a b r w))))
   \<and> \<not> Calculation_eq (fst (Calculation_init opn' a' b' r' (snd (Calculation_init opn a b r w))))
        (fst (Calculation_init opn a b r w))"
  by (simp add: Calculation_eq_def Calculation_init_def)


section \<open>Notification of the observers\<close>








section \<open>The capacity of the history\<close>

text \<open>
  With a capacity of at least one, trimming keeps the last \<open>max_size\<close> elements, and
  a list within the capacity is left as it is.
\<close>

lemma trim_drop: "1 \<le> k \<Longrightarrow> trim k xs = drop (length xs - nat k) xs"
  by (auto simp: trim_def slice_last_def)

lemma length_trim: "1 \<le> k \<Longrightarrow> int (length (trim k xs)) \<le> k"
  by (auto simp: trim_drop)

lemma trim_fits: "int (length xs) \<le> k \<Longrightarrow> trim k xs = xs"
  by (simp add: trim_def)

lemma max_size_add [simp]: "max_size (add_calculation h c) = max_size h"
  by (simp add: add_calculation_def)

lemma max_size_foldl [simp]: "max_size (foldl add_calculation h cs) = max_size h"
  by (induction cs arbitrary: h) simp_all

lemma drop_last_append:
  "drop (length (drop (length ys - n) ys @ cs) - n) (drop (length ys - n) ys @ cs)
     = drop (length (ys @ cs) - n) (ys @ cs)"
proof (cases "length ys \<le> n")
  case True
  then show ?thesis by simp
next
  case False
  then have "n < length ys" by simp
  then show ?thesis by (simp add: add.commute)
qed

lemma entries_add_many:
  "1 \<le> max_size h \<Longrightarrow> int (length (entries h)) \<le> max_size h \<Longrightarrow>
   entries (foldl add_calculation h cs)
     = drop (length (entries h @ cs) - nat (max_size h)) (entries h @ cs)"
proof (induction cs arbitrary: h)
  case Nil
  then show ?case by simp
next
  case (Cons c cs)
  let ?h = "add_calculation h c"
  let ?n = "nat (max_size h)"
  let ?ys = "entries h @ [c]"
  have e: "entries ?h = drop (length ?ys - ?n) ?ys"
    using Cons.prems by (simp add: add_calculation_def trim_drop)
  have l: "int (length (entries ?h)) \<le> max_size ?h"
    using Cons.prems by (simp add: add_calculation_def length_trim)
  have "entries (foldl add_calculation ?h cs)
     = drop (length (entries ?h @ cs) - nat (max_size ?h)) (entries ?h @ cs)"
    using Cons.prems l by (intro Cons.IH) simp_all
  also have "\<dots> = drop (length (drop (length ?ys - ?n) ?ys @ cs) - ?n)
                      (drop (length ?ys - ?n) ?ys @ cs)"
    by (simp only: e max_size_add)
  also have "\<dots> = drop (length (?ys @ cs) - ?n) (?ys @ cs)"
    by (rule drop_last_append)
  finally show ?case by simp
qed

lemma add_many_fresh:
  assumes "1 \<le> k"
  shows "entries (foldl add_calculation (CalculationHistory k) cs) = drop (length cs - nat k) cs"
    and "history_len (foldl add_calculation (CalculationHistory k) cs) = min (length cs) (nat k)"
proof -
  show e: "entries (foldl add_calculation (CalculationHistory k) cs) = drop (length cs - nat k) cs"
    using entries_add_many [of "CalculationHistory k" cs] assms
    by (simp add: CalculationHistory_def)
  show "history_len (foldl add_calculation (CalculationHistory k) cs) = min (length cs) (nat k)"
    by (simp add: history_len_def e)
qed

lemma bounded_operations:
  assumes "1 \<le> max_size h"
  shows "int (history_len (add_calculation h c)) \<le> max_size h"
    and "int (history_len (set_history h xs)) \<le> max_size h"
    and "fst (load_from_csv h p enc w) = None \<Longrightarrow>
         int (history_len (fst (snd (load_from_csv h p enc w)))) \<le> max_size h"
  using assms
  by (auto simp: history_len_def add_calculation_def set_history_def load_from_csv_def
      length_trim split: option.splits csv_file.splits prod.splits)

text \<open>
  C2. What holds: after \<open>N\<close> calls of \<open>add\<close> on a new store of capacity \<open>k \<ge> 1\<close> the
  store holds the last \<open>min(N, k)\<close> inputs in order (\<open>add_many_fresh\<close>), and the length
  is within the capacity after every \<open>add\<close>, every \<open>set_history\<close> and every load that
  returns (\<open>bounded_operations\<close>). What fails: a load that raises on a row leaves the
  rows read before it in the store, and the trimming step is never reached. Here the
  capacity is one, the file has two good rows and a bad one, \<open>load_from_csv\<close> raises
  \<open>HistoryError\<close>, and the store is left with two entries.
\<close>

theorem failed_load_exceeds_capacity:
  "fst (load_from_csv (CalculationHistory 1) ''broken.csv'' ''utf-8''
          (world_with ''broken.csv'' (Table [good_row, good_row, bad_row]))) = Some HistoryError
   \<and> max_size (fst (snd (load_from_csv (CalculationHistory 1) ''broken.csv'' ''utf-8''
          (world_with ''broken.csv'' (Table [good_row, good_row, bad_row]))))) = 1
   \<and> history_len (fst (snd (load_from_csv (CalculationHistory 1) ''broken.csv'' ''utf-8''
          (world_with ''broken.csv'' (Table [good_row, good_row, bad_row]))))) = 2"
  by (simp add: engine_defs history_len_def)


section \<open>Loading a history file\<close>

text \<open>
  A missing file and a file pandas cannot read raise \<open>HistoryError\<close> with the store
  untouched; an empty file empties the store and raises nothing; a load that returns
  leaves the rows of the table, trimmed to the capacity.
\<close>

lemma load_outcomes:
  "files w p = None \<or> files w p = Some Unparsable \<Longrightarrow>
     load_from_csv h p enc w = (Some HistoryError, h, w)"
  "files w p = Some EmptyFile \<Longrightarrow>
     fst (load_from_csv h p enc w) = None \<and> entries (fst (snd (load_from_csv h p enc w))) = []"
  "fst (load_from_csv h p enc w) = None \<Longrightarrow> files w p = Some (Table rows) \<Longrightarrow>
     entries (fst (snd (load_from_csv h p enc w)))
       = trim (max_size h) (fst (snd (load_rows rows [] w)))"
  by (auto simp: load_from_csv_def split: option.splits csv_file.splits prod.splits)

text \<open>
  C6. What fails is the atomicity of a load that raises on a malformed row: the store
  is cleared before the first row is converted, so the exception leaves the rows read
  so far in place of the old contents. Here the calculator holds one calculation, the
  file has a good row and a row whose first operand is not a number, \<open>load_history\<close>
  raises \<open>HistoryError\<close>, and the history holds the good row instead of the calculation.
\<close>

theorem load_failure_changes_history:
  "entries (history (fst (snd (perform_calculation builtin_operations ''add'' (RawFloat 5)
        (RawFloat 3)
        (Calculator_init DEFAULTS (world_with ''broken.csv'' (Table [good_row, bad_row])))))))
     = [\<lparr>ident = 0, operation = ''add'', operand1 = 5, operand2 = 3, result = 8,
          timestamp = 0\<rparr>]
   \<and> fst (load_history (Some ''broken.csv'')
        (snd (perform_calculation builtin_operations ''add'' (RawFloat 5) (RawFloat 3)
          (Calculator_init DEFAULTS (world_with ''broken.csv'' (Table [good_row, bad_row]))))))
     = Some HistoryError
   \<and> entries (history (fst (snd (load_history (Some ''broken.csv'')
        (snd (perform_calculation builtin_operations ''add'' (RawFloat 5) (RawFloat 3)
          (Calculator_init DEFAULTS (world_with ''broken.csv'' (Table [good_row, bad_row])))))))))
     = [\<lparr>ident = 1, operation = ''add'', operand1 = 1, operand2 = 2, result = 3,
          timestamp = 7\<rparr>]"
  by (simp add: engine_defs AddOperation_execute_def)


section \<open>Undo after a calculation\<close>

text \<open>
  As long as the history and the caretaker agree (\<open>consistent\<close>), which the
  constructor establishes and \<open>perform_calculation\<close>, \<open>undo\<close>, \<open>redo\<close> and
  \<open>clear_history\<close> maintain, an \<open>undo\<close> right after a calculation that returned brings
  back the entries the history held before it (\<open>undo_after_perform\<close>).
\<close>

lemma consistent_init: "valid_config cfg \<Longrightarrow> consistent (fst (Calculator_init cfg w))"
  by (simp add: valid_config_def consistent_def Calculator_init_def Let_def
      register_observer_def CalculationHistory_def save_state_def CalculatorCaretaker_def
      get_history_def current_snapshot_def fits_def)

lemma perform_calculator:
  "fst (snd (perform_calculation ops opn raw1 raw2 s)) = fst s
   \<or> (\<exists>c. fst (snd (perform_calculation ops opn raw1 raw2 s)) = performed (fst s) c)"
  by (auto simp: perform_calculation_def Let_def performed_def
      split: sum.splits prod.splits option.splits)

lemma perform_success:
  "perform_calculation ops opn raw1 raw2 s = (Inr r, s') \<Longrightarrow> \<exists>c. fst s' = performed (fst s) c"
  by (auto simp: perform_calculation_def Let_def performed_def
      split: sum.splits prod.splits option.splits)

lemma consistent_performed: "consistent calc \<Longrightarrow> consistent (performed calc c)"
  by (auto simp: consistent_def performed_def add_calculation_def save_state_def
      get_history_def current_snapshot_def fits_def length_trim)

lemma consistent_perform:
  "consistent (fst s) \<Longrightarrow> consistent (fst (snd (perform_calculation ops opn raw1 raw2 s)))"
  using perform_calculator [of ops opn raw1 raw2 s] by (auto simp: consistent_performed)

lemma undo_performed:
  assumes "consistent calc"
  shows "fst (Calculator_undo (performed calc c, w)) = None
    \<and> entries (history (fst (snd (Calculator_undo (performed calc c, w))))) = entries (history calc)"
proof (cases "undo_stack (caretaker calc) = []")
  case True
  with assms show ?thesis
    by (simp add: consistent_def performed_def Calculator_undo_def Caretaker_undo_def
        can_undo_def save_state_def set_history_def current_snapshot_def Let_def
        add_calculation_def trim_fits)
next
  case False
  from assms have "list_all (fits (max_size (history calc))) (undo_stack (caretaker calc))"
    by (simp add: consistent_def)
  with False have "fits (max_size (history calc)) (last (undo_stack (caretaker calc)))"
    by (simp add: list_all_iff)
  with assms False show ?thesis
    by (simp add: consistent_def performed_def Calculator_undo_def Caretaker_undo_def
        can_undo_def save_state_def set_history_def current_snapshot_def Let_def
        add_calculation_def trim_fits fits_def)
qed

lemma undo_after_perform:
  assumes "consistent (fst s)" and "perform_calculation ops opn raw1 raw2 s = (Inr r, s')"
  shows "fst (Calculator_undo s') = None
    \<and> entries (history (fst (snd (Calculator_undo s')))) = entries (history (fst s))"
proof -
  from perform_success [OF assms(2)] obtain c where "fst s' = performed (fst s) c" ..
  then have "s' = (performed (fst s) c, snd s')" by (simp add: prod_eq_iff)
  with undo_performed [OF assms(1), of c "snd s'"] show ?thesis by simp
qed

lemma trim_last:
  "list_all (fits k) ms \<Longrightarrow> ms \<noteq> [] \<Longrightarrow>
   trim k (memento_get_history (last ms)) = memento_get_history (last ms)"
  by (simp add: list_all_iff fits_def trim_fits)

lemma list_all_butlast: "list_all P ms \<Longrightarrow> list_all P (butlast ms)"
  by (auto simp: list_all_iff dest: in_set_butlastD)

lemma list_all_last: "list_all P ms \<Longrightarrow> ms \<noteq> [] \<Longrightarrow> P (last ms)"
  by (simp add: list_all_iff)

lemma consistent_undo: "consistent (fst s) \<Longrightarrow> consistent (fst (snd (Calculator_undo s)))"
  by (auto simp: consistent_def Calculator_undo_def Caretaker_undo_def can_undo_def Let_def
      set_history_def current_snapshot_def trim_last list_all_butlast list_all_last trim_Nil)

lemma consistent_redo: "consistent (fst s) \<Longrightarrow> consistent (fst (snd (Calculator_redo s)))"
  by (auto simp: consistent_def Calculator_redo_def Caretaker_redo_def can_redo_def Let_def
      set_history_def current_snapshot_def trim_last list_all_butlast list_all_last)

lemma consistent_clear: "consistent (fst s) \<Longrightarrow> consistent (fst (Calculator_clear_history s))"
  by (simp add: consistent_def Calculator_clear_history_def Caretaker_clear_def
      clear_history_def current_snapshot_def Let_def)

text \<open>
  C1. What fails: \<open>load_history\<close> replaces the history and tells the caretaker
  nothing, so after it the two disagree. Here a new calculator loads a file of two
  rows, performs one calculation and undoes it: the \<open>undo\<close> succeeds and leaves the
  history empty, not with the two entries it held before the calculation.
\<close>

theorem undo_after_load_loses_history:
  "entries (history (fst (snd (load_history None
        (Calculator_init DEFAULTS
           (world_with ''history/calculator_history.csv'' (Table [good_row, good_row])))))))
     = [\<lparr>ident = 0, operation = ''add'', operand1 = 1, operand2 = 2, result = 3,
          timestamp = 7\<rparr>,
        \<lparr>ident = 1, operation = ''add'', operand1 = 1, operand2 = 2, result = 3,
          timestamp = 7\<rparr>]
   \<and> fst (perform_calculation builtin_operations ''add'' (RawFloat 5) (RawFloat 3)
        (snd (load_history None
          (Calculator_init DEFAULTS
             (world_with ''history/calculator_history.csv'' (Table [good_row, good_row]))))))
     = Inr 8
   \<and> fst (Calculator_undo (snd (perform_calculation builtin_operations ''add'' (RawFloat 5)
        (RawFloat 3)
        (snd (load_history None
          (Calculator_init DEFAULTS
             (world_with ''history/calculator_history.csv'' (Table [good_row, good_row]))))))))
     = None
   \<and> entries (history (fst (snd (Calculator_undo (snd (perform_calculation builtin_operations
        ''add'' (RawFloat 5) (RawFloat 3)
        (snd (load_history None
          (Calculator_init DEFAULTS
             (world_with ''history/calculator_history.csv'' (Table [good_row, good_row])))))))))))
     = []"
  by (simp add: engine_defs AddOperation_execute_def)


section \<open>Undo to exhaustion, then redo\<close>

lemma undo_floor_init: "undo_floor (fst (Calculator_init cfg w))"
  by (simp add: undo_floor_def Calculator_init_def Let_def register_observer_def
      CalculationHistory_def save_state_def CalculatorCaretaker_def get_history_def)

lemma undo_floor_perform:
  "undo_floor (fst s) \<Longrightarrow> undo_floor (fst (snd (perform_calculation ops opn raw1 raw2 s)))"
  using perform_calculator [of ops opn raw1 raw2 s]
  by (auto simp: undo_floor_def performed_def save_state_def)

lemma run_performs_invariant:
  "consistent (fst s) \<Longrightarrow> undo_floor (fst s) \<Longrightarrow>
   consistent (fst (run_performs ops cs s)) \<and> undo_floor (fst (run_performs ops cs s))"
proof (induction cs arbitrary: s)
  case Nil
  then show ?case by simp
next
  case (Cons x cs)
  obtain t opn raw1 raw2 where x: "x = (t, opn, raw1, raw2)" by (cases x)
  let ?s = "snd (perform_calculation ops opn raw1 raw2 (fst s, (snd s)\<lparr>clock := t\<rparr>))"
  have "consistent (fst ?s)"
    using consistent_perform [of "(fst s, (snd s)\<lparr>clock := t\<rparr>)"] Cons.prems by simp
  moreover have "undo_floor (fst ?s)"
    using undo_floor_perform [of "(fst s, (snd s)\<lparr>clock := t\<rparr>)"] Cons.prems by simp
  ultimately show ?case using Cons.IH [of ?s] by (simp add: x)
qed

lemma undo_step:
  "Calculator_undo s = (None, s') \<Longrightarrow>
   undo_stack (caretaker (fst s)) \<noteq> []
   \<and> caretaker (fst s') = \<lparr>undo_stack = butlast (undo_stack (caretaker (fst s))),
        redo_stack = redo_stack (caretaker (fst s)) @ [last (undo_stack (caretaker (fst s)))]\<rparr>
   \<and> max_size (history (fst s')) = max_size (history (fst s))"
  by (auto simp: Calculator_undo_def Caretaker_undo_def can_undo_def Let_def set_history_def
      split: if_splits)

lemma undo_fails:
  "Calculator_undo s = (Some e, s') \<Longrightarrow>
   e = HistoryError \<and> s' = s \<and> undo_stack (caretaker (fst s)) = []"
  by (auto simp: Calculator_undo_def Caretaker_undo_def can_undo_def Let_def split: if_splits)

lemma undo_to_exhaustion_result:
  "fst (undo_to_exhaustion s) = HistoryError
   \<and> caretaker (fst (snd (undo_to_exhaustion s)))
       = \<lparr>undo_stack = [],
          redo_stack = redo_stack (caretaker (fst s)) @ rev (undo_stack (caretaker (fst s)))\<rparr>
   \<and> max_size (history (fst (snd (undo_to_exhaustion s)))) = max_size (history (fst s))"
proof (induction s rule: undo_to_exhaustion.induct)
  case (1 s)
  obtain r s' where u: "Calculator_undo s = (r, s')" by (cases "Calculator_undo s")
  show ?case
  proof (cases r)
    case None
    from undo_step [OF u [unfolded None]]
    have ne: "undo_stack (caretaker (fst s)) \<noteq> []"
      and ct: "caretaker (fst s') = \<lparr>undo_stack = butlast (undo_stack (caretaker (fst s))),
        redo_stack = redo_stack (caretaker (fst s)) @ [last (undo_stack (caretaker (fst s)))]\<rparr>"
      and m: "max_size (history (fst s')) = max_size (history (fst s))"
      by simp_all
    have r: "rev (undo_stack (caretaker (fst s)))
        = last (undo_stack (caretaker (fst s))) # rev (butlast (undo_stack (caretaker (fst s))))"
      using ne by (metis append_butlast_last_id rev_append rev_singleton_conv
          append_Cons append_Nil)
    have e: "undo_to_exhaustion s = undo_to_exhaustion s'"
      using u None by simp
    from "1" [of r s'] u None show ?thesis
      by (simp only: e) (simp add: ct m r)
  next
    case (Some e)
    from undo_fails [OF u [unfolded Some]] u Some show ?thesis by simp
  qed
qed

lemma redo_step:
  "redo_stack (caretaker (fst s)) \<noteq> [] \<Longrightarrow>
   fst (Calculator_redo s) = None
   \<and> redo_stack (caretaker (fst (snd (Calculator_redo s))))
       = butlast (redo_stack (caretaker (fst s)))
   \<and> entries (history (fst (snd (Calculator_redo s))))
       = trim (max_size (history (fst s)))
           (memento_get_history (last (redo_stack (caretaker (fst s)))))
   \<and> max_size (history (fst (snd (Calculator_redo s)))) = max_size (history (fst s))"
  by (simp add: Calculator_redo_def Caretaker_redo_def can_redo_def Let_def set_history_def)

lemma repeat_redo_all:
  "redo_stack (caretaker (fst s)) = ms \<Longrightarrow> ms \<noteq> [] \<Longrightarrow>
   entries (history (fst (repeat_redo (length ms) s)))
     = trim (max_size (history (fst s))) (memento_get_history (hd ms))"
proof (induction ms arbitrary: s rule: rev_induct)
  case Nil
  then show ?case by simp
next
  case (snoc m ms)
  let ?s = "snd (Calculator_redo s)"
  from snoc.prems have ne: "redo_stack (caretaker (fst s)) \<noteq> []" by simp
  from redo_step [OF ne] snoc.prems
  have r: "redo_stack (caretaker (fst ?s)) = ms"
    and e: "entries (history (fst ?s)) = trim (max_size (history (fst s))) (memento_get_history m)"
    and k: "max_size (history (fst ?s)) = max_size (history (fst s))"
    by simp_all
  show ?case
  proof (cases "ms = []")
    case True
    with e show ?thesis by simp
  next
    case False
    from snoc.IH [OF r False] k False show ?thesis by simp
  qed
qed

text \<open>
  C3, as the code has it. After one calculation on a new calculator, repeating \<open>undo\<close>
  ends with \<open>HistoryError\<close>; the \<open>redo\<close> that follows brings back the memento undone
  last, the empty one of the constructor, not the history with its one entry.
\<close>

theorem redo_after_exhaustion_counterexample:
  "fst (undo_to_exhaustion
          (snd (perform_calculation builtin_operations ''add'' (RawFloat 5) (RawFloat 3)
                  (Calculator_init DEFAULTS fresh_world)))) = HistoryError
   \<and> entries (history (fst
          (snd (perform_calculation builtin_operations ''add'' (RawFloat 5) (RawFloat 3)
                  (Calculator_init DEFAULTS fresh_world)))))
       = [\<lparr>ident = 0, operation = ''add'', operand1 = 5, operand2 = 3, result = 8,
            timestamp = 0\<rparr>]
   \<and> fst (Calculator_redo (snd (undo_to_exhaustion
          (snd (perform_calculation builtin_operations ''add'' (RawFloat 5) (RawFloat 3)
                  (Calculator_init DEFAULTS fresh_world)))))) = None
   \<and> entries (history (fst (snd (Calculator_redo (snd (undo_to_exhaustion
          (snd (perform_calculation builtin_operations ''add'' (RawFloat 5) (RawFloat 3)
                  (Calculator_init DEFAULTS fresh_world)))))))))
       = []"
  by (simp add: engine_defs AddOperation_execute_def)

text \<open>
  C3, amended. In every state reached from a new calculator (of a valid
  configuration) by any sequence of \<open>perform_calculation\<close> calls, repeating \<open>undo\<close>
  until it raises terminates, with \<open>HistoryError\<close>. One \<open>redo\<close> after that succeeds and
  restores the oldest state, the empty history of the constructor; as many \<open>redo\<close>
  calls as there were mementos on the undo stack restore the history as it was before
  the first \<open>undo\<close>.
\<close>

theorem undo_exhaustion_then_redo:
  assumes "valid_config cfg"
  shows "fst (undo_to_exhaustion (run_performs ops cs (Calculator_init cfg w))) = HistoryError
   \<and> fst (Calculator_redo (snd (undo_to_exhaustion
            (run_performs ops cs (Calculator_init cfg w))))) = None
   \<and> entries (history (fst (snd (Calculator_redo (snd (undo_to_exhaustion
            (run_performs ops cs (Calculator_init cfg w)))))))) = []
   \<and> entries (history (fst (repeat_redo
            (length (undo_stack (caretaker (fst (run_performs ops cs (Calculator_init cfg w))))))
            (snd (undo_to_exhaustion (run_performs ops cs (Calculator_init cfg w)))))))
       = entries (history (fst (run_performs ops cs (Calculator_init cfg w))))"
proof -
  let ?s = "run_performs ops cs (Calculator_init cfg w)"
  let ?x = "snd (undo_to_exhaustion ?s)"
  let ?U = "undo_stack (caretaker (fst ?s))"
  let ?k = "max_size (history (fst ?s))"
  from run_performs_invariant [OF consistent_init [OF assms] undo_floor_init]
  have c: "consistent (fst ?s)" and f: "undo_floor (fst ?s)" by blast+
  from f have U: "?U \<noteq> []" and h: "hd ?U = CalculatorMemento []"
    and r0: "redo_stack (caretaker (fst ?s)) = []"
    by (simp_all add: undo_floor_def)
  from undo_to_exhaustion_result [of ?s] r0
  have e: "fst (undo_to_exhaustion ?s) = HistoryError"
    and rx: "redo_stack (caretaker (fst ?x)) = rev ?U"
    and kx: "max_size (history (fst ?x)) = ?k"
    by simp_all
  from U rx have ne: "redo_stack (caretaker (fst ?x)) \<noteq> []" by simp
  from redo_step [OF ne] rx kx U h
  have one: "fst (Calculator_redo ?x) = None"
    "entries (history (fst (snd (Calculator_redo ?x)))) = []"
    by (simp_all add: last_rev trim_Nil)
  from c U have t: "trim ?k (memento_get_history (last ?U)) = entries (history (fst ?s))"
    by (simp add: consistent_def current_snapshot_def trim_last)
  from repeat_redo_all [OF rx] U kx t
  have "entries (history (fst (repeat_redo (length ?U) ?x))) = entries (history (fst ?s))"
    by (simp add: hd_rev)
  with e one show ?thesis by simp
qed

text \<open>The theorem at work: the default configuration and two calculations.\<close>

theorem undo_exhaustion_then_redo_witness:
  "valid_config DEFAULTS
   \<and> length (entries (history (fst (run_performs builtin_operations
        [(1, ''add'', RawFloat 5, RawFloat 3), (2, ''divide'', RawFloat 10, RawFloat 3)]
        (Calculator_init DEFAULTS fresh_world))))) = 2
   \<and> fst (undo_to_exhaustion (run_performs builtin_operations
        [(1, ''add'', RawFloat 5, RawFloat 3), (2, ''divide'', RawFloat 10, RawFloat 3)]
        (Calculator_init DEFAULTS fresh_world))) = HistoryError
   \<and> entries (history (fst (snd (Calculator_redo (snd (undo_to_exhaustion
        (run_performs builtin_operations
          [(1, ''add'', RawFloat 5, RawFloat 3), (2, ''divide'', RawFloat 10, RawFloat 3)]
          (Calculator_init DEFAULTS fresh_world)))))))) = []
   \<and> entries (history (fst (repeat_redo 3 (snd (undo_to_exhaustion
        (run_performs builtin_operations
          [(1, ''add'', RawFloat 5, RawFloat 3), (2, ''divide'', RawFloat 10, RawFloat 3)]
          (Calculator_init DEFAULTS fresh_world)))))))
       = entries (history (fst (run_performs builtin_operations
          [(1, ''add'', RawFloat 5, RawFloat 3), (2, ''divide'', RawFloat 10, RawFloat 3)]
          (Calculator_init DEFAULTS fresh_world))))"
proof -
  let ?cs = "[(1, ''add'', RawFloat 5, RawFloat 3), (2, ''divide'', RawFloat 10, RawFloat 3)]"
  let ?s = "run_performs builtin_operations ?cs (Calculator_init DEFAULTS fresh_world)"
  have v: "valid_config DEFAULTS"
    by (simp add: valid_config_def DEFAULTS_def)
  have n: "length (entries (history (fst ?s))) = 2"
    "length (undo_stack (caretaker (fst ?s))) = 3"
    by (simp_all add: engine_defs AddOperation_execute_def DivideOperation_execute_def)
  from undo_exhaustion_then_redo [OF v, of builtin_operations ?cs fresh_world] v n
  show ?thesis by simp
qed

end
